theory Spec2Isabelle
  imports Complex_Main
begin

section \<open>Values persisted by the host application\<close>

text \<open>
  \<^verbatim>\<open>loadData()\<close> hands back whatever \<^verbatim>\<open>JSON.parse\<close> read from the plugin's data
  file, or \<^verbatim>\<open>null\<close> when nothing was ever saved.  Its TypeScript type is \<^verbatim>\<open>any\<close>, so
  the model takes every JSON value.  An object is kept as the list of its members in
  the order of the file; a key written twice keeps its last value.
\<close>

datatype json =
    JNull
  | JBool bool
  | JNum real
  | JStr string
  | JArr "json list"
  | JObj "(string \<times> json) list"

text \<open>Decimal spelling of an array index, as JavaScript spells a property key.\<close>

fun show_nat :: "nat \<Rightarrow> string" where
  "show_nat n =
     (if n < 10 then [char_of (48 + n)]
      else show_nat (n div 10) @ [char_of (48 + n mod 10)])"

declare show_nat.simps [simp del]

text \<open>
  The own enumerable properties of a value used as a source of \<^verbatim>\<open>Object.assign\<close>:
  \<^verbatim>\<open>null\<close> is skipped, a number or a boolean has none, a string and an array have their
  indices, an object has its members.
\<close>

fun ownProps :: "json \<Rightarrow> (string \<rightharpoonup> json)" where
  "ownProps JNull = Map.empty"
| "ownProps (JBool b) = Map.empty"
| "ownProps (JNum x) = Map.empty"
| "ownProps (JStr s) = map_of (zip (map show_nat [0..<length s]) (map (\<lambda>c. JStr [c]) s))"
| "ownProps (JArr xs) = map_of (zip (map show_nat [0..<length xs]) xs)"
| "ownProps (JObj kvs) = map_of (rev kvs)"

text \<open>
  \<^verbatim>\<open>Object.assign(target, ...sources)\<close>: each source in turn overwrites the target,
  one assignment \<^verbatim>\<open>target[key] = value\<close> per own property.  The map is the target's
  own properties.  Assigning to the key \<^verbatim>\<open>__proto__\<close> goes to the prototype's setter
  and creates no own property, so that key is skipped.
\<close>

definition Object_assign :: "(string \<rightharpoonup> json) \<Rightarrow> json list \<Rightarrow> (string \<rightharpoonup> json)" where
  "Object_assign target sources =
     foldl (\<lambda>t s. t ++ (ownProps s |` (- {''__proto__''}))) target sources"

section \<open>The plugin (src/main.ts)\<close>

text \<open>
  \<^verbatim>\<open>
  const DEFAULT_SETTINGS: RecipeViewPluginSettings = {
      sideColumnRegex: 'Ingredients|Nutrition',
      treatH1AsFilename: false,
      renderUnicodeFractions: true,
      singleColumnMaxWidth: 600,
      showBulletsTwoColumn: false,
  }
  \<close>
\<close>

definition DEFAULT_SETTINGS :: json where
  "DEFAULT_SETTINGS = JObj
     [(''sideColumnRegex'', JStr ''Ingredients|Nutrition''),
      (''treatH1AsFilename'', JBool False),
      (''renderUnicodeFractions'', JBool True),
      (''singleColumnMaxWidth'', JNum 600),
      (''showBulletsTwoColumn'', JBool False)]"

text \<open>The five fields of the interface \<^verbatim>\<open>RecipeViewPluginSettings\<close>.\<close>

definition settingsFields :: "string list" where
  "settingsFields =
     [''sideColumnRegex'', ''treatH1AsFilename'', ''renderUnicodeFractions'',
      ''singleColumnMaxWidth'', ''showBulletsTwoColumn'']"

text \<open>
  A view state as \<^verbatim>\<open>getViewState()\<close> returns it and \<^verbatim>\<open>setViewState()\<close> takes it.  A
  leaf is modelled by the view state it currently shows; \<^verbatim>\<open>leaf.view.getState()\<close> is
  the \<open>state\<close> member of that view state.
\<close>

record ViewState =
  vtype :: string
  state :: json
  active :: bool
  popstate :: bool

type_synonym WorkspaceLeaf = ViewState

definition getViewState :: "WorkspaceLeaf \<Rightarrow> ViewState" where
  "getViewState leaf = leaf"

definition getState :: "WorkspaceLeaf \<Rightarrow> json" where
  "getState leaf = state leaf"

definition setViewState :: "WorkspaceLeaf \<Rightarrow> ViewState \<Rightarrow> WorkspaceLeaf" where
  "setViewState leaf vs = vs"

text \<open>
  The plugin object together with the part of \<^verbatim>\<open>this.app.workspace\<close> it touches:
  the leaf \<^verbatim>\<open>getMostRecentLeaf()\<close> returns (\<^verbatim>\<open>null\<close> is \<open>None\<close>) and the other leaves.
\<close>

record RecipeViewPlugin =
  settings :: "string \<rightharpoonup> json"
  manualViewChange :: bool
  mostRecentLeaf :: "WorkspaceLeaf option"
  otherLeaves :: "WorkspaceLeaf list"

text \<open>
  \<^verbatim>\<open>
  async loadSettings() {
      this.settings = Object.assign({}, DEFAULT_SETTINGS, await this.loadData());
  }
  \<close>
  The first argument is what \<^verbatim>\<open>loadData()\<close> resolved to.
\<close>

definition loadSettings :: "json \<Rightarrow> RecipeViewPlugin \<Rightarrow> RecipeViewPlugin" where
  "loadSettings loadData this =
     this\<lparr>settings := Object_assign Map.empty [DEFAULT_SETTINGS, loadData]\<rparr>"

text \<open>
  \<^verbatim>\<open>
  async setRecipeView(leaf: WorkspaceLeaf) {
      await leaf.setViewState({
          type: VIEW_TYPE_RECIPE, state: leaf.view.getState(), active: true, popstate: true })
  }
  async setMarkdownView(leaf: WorkspaceLeaf) {
      await leaf.setViewState({
          type: "markdown", state: leaf.view.getState(), active: true, popstate: true })
  }
  \<close>
  \<^verbatim>\<open>VIEW_TYPE_RECIPE\<close> is imported from \<^verbatim>\<open>./recipe-view\<close>, which is not among the
  sources, so it is a parameter of the model.
\<close>

definition setRecipeView :: "string \<Rightarrow> WorkspaceLeaf \<Rightarrow> WorkspaceLeaf" where
  "setRecipeView VIEW_TYPE_RECIPE leaf =
     setViewState leaf
       \<lparr>vtype = VIEW_TYPE_RECIPE, state = getState leaf, active = True, popstate = True\<rparr>"

definition setMarkdownView :: "WorkspaceLeaf \<Rightarrow> WorkspaceLeaf" where
  "setMarkdownView leaf =
     setViewState leaf
       \<lparr>vtype = ''markdown'', state = getState leaf, active = True, popstate = True\<rparr>"

text \<open>
  \<^verbatim>\<open>
  toggleView(checking: boolean) {
      const activeLeaf = this.app.workspace.getMostRecentLeaf();
      this.manualViewChange = true;
      if (activeLeaf?.getViewState().type == "markdown") {
          if (!checking) { this.setRecipeView(activeLeaf!); }
      } else if (activeLeaf?.getViewState().type == VIEW_TYPE_RECIPE) {
          if (!checking) { this.setMarkdownView(activeLeaf!); }
      } else {
          return false;
      }
      return true;
  }
  \<close>
  With no leaf, \<^verbatim>\<open>activeLeaf?.getViewState().type\<close> is \<^verbatim>\<open>undefined\<close>, which equals neither
  string.  The result is the returned boolean and the plugin afterwards.
\<close>

definition toggleView :: "string \<Rightarrow> bool \<Rightarrow> RecipeViewPlugin \<Rightarrow> bool \<times> RecipeViewPlugin" where
  "toggleView VIEW_TYPE_RECIPE checking this0 =
     (let activeLeaf = mostRecentLeaf this0;
          this = this0\<lparr>manualViewChange := True\<rparr>
      in
        if map_option (vtype \<circ> getViewState) activeLeaf = Some ''markdown'' then
          (True,
           if \<not> checking
           then this\<lparr>mostRecentLeaf := map_option (setRecipeView VIEW_TYPE_RECIPE) activeLeaf\<rparr>
           else this)
        else if map_option (vtype \<circ> getViewState) activeLeaf = Some VIEW_TYPE_RECIPE then
          (True,
           if \<not> checking
           then this\<lparr>mostRecentLeaf := map_option setMarkdownView activeLeaf\<rparr>
           else this)
        else (False, this))"

section \<open>Quantity arithmetic\<close>

text \<open>
  Modelled from the spec: the quantity engine (scanning, parsing, scaling and rendering of
  quantities) is not part of \<^verbatim>\<open>src/main.ts\<close>, the only source file; the definitions of
  this section follow sections 3 and 4.4 of the specification.  A rational is the
  pair of an integer numerator and an integer denominator; a well-formed one has a
  positive denominator, a reduced one has coprime members as well.
\<close>

record Rational =
  num :: int
  den :: int

text \<open>The number a pair stands for, in the rationals of the logic.\<close>

definition valueOf :: "Rational \<Rightarrow> rat" where
  "valueOf r = Fract (num r) (den r)"

text \<open>
  Modelled from the spec: reduction to lowest terms (``always reduced'', section 3), by
  cancelling the greatest common divisor.
\<close>

definition reduce :: "int \<Rightarrow> int \<Rightarrow> Rational" where
  "reduce n d = (let g = gcd n d in \<lparr>num = n div g, den = d div g\<rparr>)"

text \<open>
  Modelled from the spec: the Scaler (section 4.4), ``a new exact rational = value
  \<times> factor, fully reduced''.
\<close>

definition scale :: "Rational \<Rightarrow> Rational \<Rightarrow> Rational" where
  "scale v k = reduce (num v * num k) (den v * den k)"

text \<open>A plugin whose most recent leaf shows a markdown view, for the examples.\<close>

definition examplePlugin :: RecipeViewPlugin where
  "examplePlugin = \<lparr>settings = Map.empty, manualViewChange = False,
      mostRecentLeaf = Some \<lparr>vtype = ''markdown'', state = JNull, active = True, popstate = False\<rparr>,
      otherLeaves = []\<rparr>"

section \<open>Settings\<close>

lemma Object_assign_two:
  "Object_assign t [a, b] =
     t ++ (ownProps a |` (- {''__proto__''})) ++ (ownProps b |` (- {''__proto__''}))"
  by (simp add: Object_assign_def)

lemma ownProps_DEFAULT_SETTINGS_dom:
  "dom (ownProps DEFAULT_SETTINGS) = set settingsFields"
  by (auto simp: DEFAULT_SETTINGS_def settingsFields_def split: if_splits)

lemma settingsFields_not_proto: "k \<in> set settingsFields \<Longrightarrow> k \<noteq> ''__proto__''"
  by (auto simp: settingsFields_def)

lemma ownProps_DEFAULT_SETTINGS_restrict:
  "ownProps DEFAULT_SETTINGS |` (- {''__proto__''}) = ownProps DEFAULT_SETTINGS"
proof
  fix k
  show "(ownProps DEFAULT_SETTINGS |` (- {''__proto__''})) k = ownProps DEFAULT_SETTINGS k"
  proof (cases "k = ''__proto__''")
    case True
    then show ?thesis by (simp add: DEFAULT_SETTINGS_def)
  next
    case False
    then show ?thesis by simp
  qed
qed

lemma settings_loadSettings:
  "settings (loadSettings d this) =
     ownProps DEFAULT_SETTINGS ++ (ownProps d |` (- {''__proto__''}))"
  by (simp add: loadSettings_def Object_assign_two ownProps_DEFAULT_SETTINGS_restrict)

text \<open>
  Claim C9.  After \<open>loadSettings\<close> every field of the settings is defined: the persisted
  data is merged over \<open>DEFAULT_SETTINGS\<close>, so a field the persisted data lacks has its
  default value, a field it has keeps the persisted value, and with no persisted data
  (\<^verbatim>\<open>null\<close>) the settings are the defaults.  In particular
  \<^verbatim>\<open>renderUnicodeFractions\<close> defaults to true and \<^verbatim>\<open>sideColumnRegex\<close> to
  \<^verbatim>\<open>'Ingredients|Nutrition'\<close>.
\<close>

theorem loadSettings_defaults:
  "(\<forall>k \<in> set settingsFields. settings (loadSettings d this) k \<noteq> None)
   \<and> (\<forall>k \<in> set settingsFields. ownProps d k = None \<longrightarrow>
          settings (loadSettings d this) k = ownProps DEFAULT_SETTINGS k)
   \<and> (\<forall>k \<in> set settingsFields. \<forall>v. ownProps d k = Some v \<longrightarrow>
          settings (loadSettings d this) k = Some v)
   \<and> settings (loadSettings JNull this) = ownProps DEFAULT_SETTINGS
   \<and> ownProps DEFAULT_SETTINGS ''renderUnicodeFractions'' = Some (JBool True)
   \<and> ownProps DEFAULT_SETTINGS ''sideColumnRegex'' = Some (JStr ''Ingredients|Nutrition'')"
proof -
  note s = settings_loadSettings
  have 1: "\<forall>k \<in> set settingsFields. settings (loadSettings d this) k \<noteq> None"
  proof
    fix k assume "k \<in> set settingsFields"
    then have "k \<in> dom (ownProps DEFAULT_SETTINGS)"
      by (simp only: ownProps_DEFAULT_SETTINGS_dom)
    then have "k \<in> dom (ownProps DEFAULT_SETTINGS ++ (ownProps d |` (- {''__proto__''})))"
      by simp
    then show "settings (loadSettings d this) k \<noteq> None"
      by (auto simp: s)
  qed
  have 2: "\<forall>k \<in> set settingsFields. ownProps d k = None \<longrightarrow>
          settings (loadSettings d this) k = ownProps DEFAULT_SETTINGS k"
    by (simp add: s map_add_def restrict_map_def)
  have 3: "\<forall>k \<in> set settingsFields. \<forall>v. ownProps d k = Some v \<longrightarrow>
          settings (loadSettings d this) k = Some v"
    using settingsFields_not_proto by (simp add: s map_add_def restrict_map_def)
  have 4: "settings (loadSettings JNull this) = ownProps DEFAULT_SETTINGS"
    by (simp add: s)
  have 5: "ownProps DEFAULT_SETTINGS ''renderUnicodeFractions'' = Some (JBool True)"
    by (simp add: DEFAULT_SETTINGS_def)
  have 6: "ownProps DEFAULT_SETTINGS ''sideColumnRegex'' = Some (JStr ''Ingredients|Nutrition'')"
    by (simp add: DEFAULT_SETTINGS_def)
  from 1 2 3 4 5 6 show ?thesis by blast
qed

theorem loadSettings_defaults_witness:
  "settings (loadSettings (JObj [(''treatH1AsFilename'', JBool True)]) examplePlugin)
      ''singleColumnMaxWidth'' = Some (JNum 600)
   \<and> settings (loadSettings (JObj [(''treatH1AsFilename'', JBool True)]) examplePlugin)
      ''treatH1AsFilename'' = Some (JBool True)
   \<and> settings (loadSettings (JObj [(''treatH1AsFilename'', JBool True)]) examplePlugin)
      ''renderUnicodeFractions'' \<noteq> None"
  using loadSettings_defaults [of "JObj [(''treatH1AsFilename'', JBool True)]" examplePlugin]
  by (simp add: settingsFields_def DEFAULT_SETTINGS_def)

section \<open>Toggling the view\<close>

text \<open>
  Claim C10.  \<open>toggleView\<close> returns true exactly when the most recent leaf exists and
  shows a markdown view or a recipe view.  Called with \<open>checking\<close> true it writes the
  flag \<open>manualViewChange\<close> and nothing else, so the most recent leaf and every other
  leaf stay as they were.  Called with \<open>checking\<close> false (and the recipe view type being
  a name other than \<^verbatim>\<open>"markdown"\<close>) a markdown leaf becomes a recipe leaf and a recipe
  leaf becomes a markdown leaf, so the view type after the call is never the one before;
  the other leaves are untouched either way.
\<close>

theorem toggleView_spec:
  "(fst (toggleView V c this) \<longleftrightarrow>
      (\<exists>l. mostRecentLeaf this = Some l \<and> (vtype l = ''markdown'' \<or> vtype l = V)))
   \<and> snd (toggleView V True this) = this\<lparr>manualViewChange := True\<rparr>
   \<and> otherLeaves (snd (toggleView V c this)) = otherLeaves this
   \<and> (V \<noteq> ''markdown'' \<longrightarrow>
        (\<forall>l. mostRecentLeaf this = Some l \<longrightarrow>
           (vtype l = ''markdown'' \<longrightarrow>
              map_option vtype (mostRecentLeaf (snd (toggleView V False this))) = Some V)
         \<and> (vtype l = V \<longrightarrow>
              map_option vtype (mostRecentLeaf (snd (toggleView V False this))) = Some ''markdown'')
         \<and> (fst (toggleView V False this) \<longrightarrow>
              map_option vtype (mostRecentLeaf (snd (toggleView V False this))) \<noteq> Some (vtype l))))"
  by (cases "mostRecentLeaf this")
     (auto simp: toggleView_def Let_def getViewState_def setRecipeView_def setMarkdownView_def
        setViewState_def)

theorem toggleView_spec_witness:
  "fst (toggleView ''recipe'' False examplePlugin)
   \<and> map_option vtype (mostRecentLeaf (snd (toggleView ''recipe'' False examplePlugin))) = Some ''recipe''
   \<and> map_option vtype (mostRecentLeaf (snd (toggleView ''recipe'' False
        (snd (toggleView ''recipe'' False examplePlugin))))) = Some ''markdown''"
  using toggleView_spec [of "''recipe''" False examplePlugin]
    toggleView_spec [of "''recipe''" False "snd (toggleView ''recipe'' False examplePlugin)"]
  by (simp add: examplePlugin_def toggleView_def Let_def getViewState_def setRecipeView_def setMarkdownView_def
        setViewState_def getState_def)

section \<open>Scaling\<close>

lemma reduce_den_pos: "0 < d \<Longrightarrow> 0 < den (reduce n d)"
proof -
  assume d: "0 < d"
  then have g: "0 < gcd n d" by simp
  from d have "gcd n d \<le> d" by (rule gcd_le2_int)
  with g have "0 < d div gcd n d" by (simp add: pos_imp_zdiv_pos_iff)
  then show ?thesis by (simp add: reduce_def Let_def)
qed

lemma reduce_coprime: "0 < d \<Longrightarrow> coprime (num (reduce n d)) (den (reduce n d))"
  by (simp add: reduce_def Let_def div_gcd_coprime)

lemma reduce_value: "valueOf (reduce n d) = Fract n d"
  by (simp add: reduce_def Let_def valueOf_def Fract_coprime)

lemma reduce_quotient_of:
  assumes "0 < d"
  shows "(num (reduce n d), den (reduce n d)) = quotient_of (Fract n d)"
proof -
  have "quotient_of (Fract n d) = quotient_of (Fract (num (reduce n d)) (den (reduce n d)))"
    using reduce_value [of n d] by (simp add: valueOf_def)
  also have "\<dots> = (num (reduce n d), den (reduce n d))"
    using reduce_den_pos [OF assms, of n] reduce_coprime [OF assms, of n]
    by (simp add: quotient_of_Fract Rat.normalize_stable)
  finally show ?thesis by simp
qed

text \<open>
  Claim C2.  For well-formed rationals \<open>v\<close> and \<open>k\<close> the Scaler's result is well-formed
  and in lowest terms, and stands for exactly the product of the two values: it is the
  normal form of the product.  Nothing is assumed about the sign of \<open>k\<close> or about
  \<open>k\<close> being nonzero, and \<open>scale\<close> has no error value.
\<close>

theorem scale_exact:
  assumes "0 < den v" and "0 < den k"
  shows "0 < den (scale v k)
    \<and> coprime (num (scale v k)) (den (scale v k))
    \<and> valueOf (scale v k) = valueOf v * valueOf k
    \<and> (num (scale v k), den (scale v k)) = quotient_of (valueOf v * valueOf k)"
proof -
  from assms have d: "0 < den v * den k" by simp
  have m: "valueOf v * valueOf k = Fract (num v * num k) (den v * den k)"
    by (simp add: valueOf_def)
  show ?thesis
    unfolding scale_def m
    using reduce_den_pos [OF d] reduce_coprime [OF d] reduce_value reduce_quotient_of [OF d]
    by simp
qed

theorem scale_exact_witness:
  "scale \<lparr>num = 3, den = 4\<rparr> \<lparr>num = - 2, den = 3\<rparr> = \<lparr>num = - 1, den = 2\<rparr>
   \<and> valueOf \<lparr>num = - 1, den = 2\<rparr> = valueOf \<lparr>num = 3, den = 4\<rparr> * valueOf \<lparr>num = - 2, den = 3\<rparr>
   \<and> scale \<lparr>num = 3, den = 4\<rparr> \<lparr>num = 0, den = 5\<rparr> = \<lparr>num = 0, den = 1\<rparr>"
proof -
  have a: "scale \<lparr>num = 3, den = 4\<rparr> \<lparr>num = - 2, den = 3\<rparr> = \<lparr>num = - 1, den = 2\<rparr>"
    by (simp add: scale_def reduce_def Let_def)
  have b: "scale \<lparr>num = 3, den = 4\<rparr> \<lparr>num = 0, den = 5\<rparr> = \<lparr>num = 0, den = 1\<rparr>"
    by (simp add: scale_def reduce_def Let_def)
  from scale_exact [of "\<lparr>num = 3, den = 4\<rparr>" "\<lparr>num = - 2, den = 3\<rparr>"] a b
  show ?thesis by simp
qed

end
